theory Spec2Isabelle
  imports Main "HOL-Library.Multiset"
begin

section \<open>Python values\<close>

text \<open>
  A Python \<open>str\<close> is modelled by its UTF-8 encoding, one \<open>char\<close> per byte, so that every
  string the program can meet has a representation. Equality, concatenation and
  \<open>str.join\<close> act on the encodings as they act on the strings.
\<close>

text \<open>\<open>sep.join(xs)\<close>.\<close>

fun join :: "string \<Rightarrow> string list \<Rightarrow> string" where
  "join sep [] = []"
| "join sep [x] = x"
| "join sep (x # y # ys) = x @ sep @ join sep (y # ys)"

text \<open>
  \<open>repr\<close> of a \<open>str\<close>: double quotes are chosen when the string holds a single quote and
  no double quote, single quotes otherwise; the quote and the backslash are escaped, tab,
  newline and carriage return get their letter escapes, other control characters a
  \<open>\xNN\<close> escape. This is exact for ASCII strings, hence for the six required column
  names, the only strings the application passes. Bytes from \<open>0x80\<close> on belong to
  non-ASCII characters and are copied, as Python does for the printable ones; for a
  non-ASCII character that is not printable Python writes an escape instead.
\<close>

definition hex_digit :: "nat \<Rightarrow> char" where
  "hex_digit n = ''0123456789abcdef'' ! (n mod 16)"

definition repr_char :: "char \<Rightarrow> char \<Rightarrow> string" where
  "repr_char quote c =
     (if c = quote \<or> c = CHR 0x5C then [CHR 0x5C, c]
      else if c = CHR 0x09 then [CHR 0x5C, CHR ''t'']
      else if c = CHR 0x0A then [CHR 0x5C, CHR ''n'']
      else if c = CHR 0x0D then [CHR 0x5C, CHR ''r'']
      else if (of_char c :: nat) < 0x20 \<or> c = CHR 0x7F
        then [CHR 0x5C, CHR ''x'', hex_digit (of_char c div 16), hex_digit (of_char c)]
      else [c])"

definition repr_quote :: "string \<Rightarrow> char" where
  "repr_quote s = (if CHR 0x27 \<in> set s \<and> CHR 0x22 \<notin> set s then CHR 0x22 else CHR 0x27)"

definition py_repr :: "string \<Rightarrow> string" where
  "py_repr s = [repr_quote s] @ concat (map (repr_char (repr_quote s)) s) @ [repr_quote s]"

text \<open>\<open>repr\<close> of a list of strings, which is what an f-string shows for it.\<close>

definition py_repr_list :: "string list \<Rightarrow> string" where
  "py_repr_list xs = ''['' @ join '', '' (map py_repr xs) @ '']''"

text \<open>\<open>str\<close> of an \<open>int\<close>: decimal digits, with a minus sign below zero.\<close>

fun digits :: "nat \<Rightarrow> string" where
  "digits n =
     (if n < 10 then [''0123456789'' ! n]
      else digits (n div 10) @ [''0123456789'' ! (n mod 10)])"

definition str_int :: "int \<Rightarrow> string" where
  "str_int i = (if i < 0 then CHR ''-'' # digits (nat (- i)) else digits (nat i))"

section \<open>The table\<close>

text \<open>
  A cell of a \<open>DataFrame\<close> column. \<open>PyNone\<close>, \<open>NaN\<close> and \<open>NaT\<close> are the three missing
  values of pandas. \<open>OtherV\<close> is any other scalar that is not missing (a finite float, a
  timestamp), given by the text that \<open>str\<close> yields for it.
\<close>

datatype cell = PyNone | NaN | NaT | StrV string | BoolV bool | IntV int | OtherV string

text \<open>\<open>pandas.isna\<close> on a scalar.\<close>

fun isna :: "cell \<Rightarrow> bool" where
  "isna PyNone = True"
| "isna NaN = True"
| "isna NaT = True"
| "isna _ = False"

text \<open>What \<open>f"{v}"\<close> puts into the string for a cell value \<open>v\<close>.\<close>

fun py_format :: "cell \<Rightarrow> string" where
  "py_format PyNone = ''None''"
| "py_format NaN = ''nan''"
| "py_format NaT = ''NaT''"
| "py_format (StrV s) = s"
| "py_format (BoolV b) = (if b then ''True'' else ''False'')"
| "py_format (IntV i) = str_int i"
| "py_format (OtherV s) = s"

text \<open>
  A \<open>DataFrame\<close>: its columns from left to right, each a label with its cells from the
  first row down. \<open>pandas.read_excel\<close> renames repeated header names, so the tables the
  program loads have pairwise distinct labels; the operations below are nevertheless
  written out for repeated labels too. It also reads a blank cell and a cell holding the
  empty string as \<open>NaN\<close>, so no cell of a loaded table has the empty text as its value.
\<close>

type_synonym column = "string \<times> cell list"
type_synonym dataframe = "column list"

text \<open>\<open>df.columns\<close>.\<close>

definition columns :: "dataframe \<Rightarrow> string list" where
  "columns df = map fst df"

datatype error =
    KeyError "string list"
  | AttributeError string
  | ConversionError

text \<open>
  \<open>df[names]\<close> with a list of labels: for each label in turn the columns that carry it;
  \<open>KeyError\<close> with the absent labels when one is not in the table.
\<close>

definition getitem_list :: "dataframe \<Rightarrow> string list \<Rightarrow> error + dataframe" where
  "getitem_list df names =
     (let absent = filter (\<lambda>n. n \<notin> set (columns df)) names
      in if absent \<noteq> [] then Inl (KeyError absent)
         else Inr (concat (map (\<lambda>n. filter (\<lambda>c. fst c = n) df) names)))"

text \<open>
  \<open>df[name].dropna().tolist()\<close>: with one column of that label \<open>df[name]\<close> is a \<open>Series\<close>,
  whose missing cells are dropped; with several it is a \<open>DataFrame\<close>, which has no
  \<open>tolist\<close>.
\<close>

definition getitem_dropna_tolist :: "dataframe \<Rightarrow> string \<Rightarrow> error + cell list" where
  "getitem_dropna_tolist df name =
     (case filter (\<lambda>c. fst c = name) df of
        [] \<Rightarrow> Inl (KeyError [name])
      | [c] \<Rightarrow> Inr (filter (\<lambda>v. \<not> isna v) (snd c))
      | _ \<Rightarrow> Inl (AttributeError ''tolist''))"

section \<open>The page\<close>

datatype column_kind =
    LinkColumn string "string option" string
  | TextColumn string
  | CheckboxColumn string
  | NumberColumn string
  | DateColumn string

record dataframe_args =
  data :: dataframe
  key :: string
  column_order :: "string list"
  column_config :: "(string \<times> column_kind) list"
  use_container_width :: bool

record download_args =
  label :: string
  payload :: string
  file_name :: string
  mime :: string

text \<open>What a call of the Streamlit API puts on the page.\<close>

datatype element =
    PageConfig string string string
  | FileUploader string string
  | ErrorMsg string
  | Header string bool
  | Dataframe dataframe_args
  | DownloadButton download_args


text \<open>
  Before anything is shown \<open>st.dataframe\<close> converts its data for the browser, and it
  raises when that fails; nothing is put on the page then. Two failures are written out,
  as \<open>ConversionError\<close> whatever the class of the exception: column labels that repeat,
  and an integer cell that does not fit 64 bits. \<open>serialize\<close> stands for the rest of the
  library's conversion, giving the exception it raises, if any.
\<close>

definition fits_64_bits :: "cell \<Rightarrow> bool" where
  "fits_64_bits v = (case v of IntV i \<Rightarrow> - (2 ^ 63) \<le> i \<and> i < 2 ^ 64 | _ \<Rightarrow> True)"

definition st_dataframe ::
  "(dataframe_args \<Rightarrow> error option) \<Rightarrow> dataframe_args \<Rightarrow> element list \<times> (error + unit)" where
  "st_dataframe serialize a =
     (if \<not> distinct (columns (data a))
        then ([], Inl ConversionError)
      else if \<not> list_all (\<lambda>c. list_all fits_64_bits (snd c)) (data a)
        then ([], Inl ConversionError)
      else case serialize a of
             Some e \<Rightarrow> ([], Inl e)
           | None \<Rightarrow> ([Dataframe a], Inr ()))"

section \<open>The application\<close>

definition get_required_columns :: "string list" where
  "get_required_columns =
     [''user/username'', ''text'', ''comment_like_count'',
      ''user/is_verified'', ''created_at'', ''user_profile_url'']"

definition get_column_order :: "string list" where
  "get_column_order =
     [''user_profile_url'', ''user/username'', ''user/is_verified'',
      ''comment_like_count'', ''text'', ''created_at'']"

definition get_column_config :: "(string \<times> column_kind) list" where
  "get_column_config =
     [(''user/profile_pic_url'',
         LinkColumn ''Foto de perfil''
           (Some (''Foto de perfil do usu'' @ [CHR 0xC3, CHR 0xA1] @ ''rio'')) ''Ver foto''),
      (''user_profile_url'',
         LinkColumn (''Perfil do usu'' @ [CHR 0xC3, CHR 0xA1] @ ''rio'') None ''Ver perfil''),
      (''user/username'', TextColumn (''Usu'' @ [CHR 0xC3, CHR 0xA1] @ ''rio'')),
      (''user/is_verified'', CheckboxColumn ''Verificado''),
      (''comment_like_count'', NumberColumn ''Curtidas''),
      (''text'', TextColumn (''Coment'' @ [CHR 0xC3, CHR 0xA1] @ ''rio'')),
      (''created_at'', DateColumn (''Data do coment'' @ [CHR 0xC3, CHR 0xA1] @ ''rio''))]"

text \<open>
  \<open>load_data\<close>: the parser \<open>pd.read_excel\<close> is a parameter, giving the table or the text
  of the exception it raised.
\<close>

definition load_data :: "('f \<Rightarrow> string + dataframe) \<Rightarrow> 'f \<Rightarrow> element list \<times> dataframe option" where
  "load_data read_excel file_path =
     (case read_excel file_path of
        Inr df \<Rightarrow> ([], Some df)
      | Inl e \<Rightarrow> ([ErrorMsg (''Erro ao carregar arquivo: '' @ e)], None))"

definition missing_columns_msg :: string where
  "missing_columns_msg =
     ''As seguintes colunas est'' @ [CHR 0xC3, CHR 0xA3] @ ''o faltando no arquivo: ''"

definition validate_columns :: "dataframe \<Rightarrow> string list \<Rightarrow> element list \<times> bool" where
  "validate_columns df required_columns =
     (let missing = filter (\<lambda>col. col \<notin> set (columns df)) required_columns
      in if missing \<noteq> []
         then ([ErrorMsg (missing_columns_msg @ py_repr_list missing)], False)
         else ([], True))"

definition display_data ::
  "(dataframe_args \<Rightarrow> error option) \<Rightarrow> dataframe \<Rightarrow> string list
     \<Rightarrow> element list \<times> (error + unit)" where
  "display_data serialize df required_columns =
     (let header = Header ''Dados do Instagram'' True
      in case getitem_list df required_columns of
           Inl e \<Rightarrow> ([header], Inl e)
         | Inr d \<Rightarrow>
             (let (shown, r) =
                    st_dataframe serialize
                      \<lparr>data = d, key = ''dataframe-instagram'',
                        column_order = get_column_order, column_config = get_column_config,
                        use_container_width = True\<rparr>
              in (header # shown, r)))"

definition base_url :: string where
  "base_url = ''https://www.instagram.com/''"

definition column_not_found_msg :: string where
  "column_not_found_msg =
     ''A coluna '' @ [CHR 0x27] @ ''user/username'' @ [CHR 0x27] @ '' n''
       @ [CHR 0xC3, CHR 0xA3] @ ''o foi encontrada no arquivo XLSX.''"

definition export_usernames :: "dataframe \<Rightarrow> element list \<times> (error + unit)" where
  "export_usernames df =
     (if ''user/username'' \<in> set (columns df) then
        (case getitem_dropna_tolist df ''user/username'' of
           Inl e \<Rightarrow> ([], Inl e)
         | Inr usernames \<Rightarrow>
             (let instagram_urls = map (\<lambda>username. base_url @ py_format username) usernames;
                  urls_text = join [CHR 0x0A] instagram_urls
              in ([DownloadButton \<lparr>label = ''Exportar user/username como texto'',
                     payload = urls_text, file_name = ''usernames.txt'',
                     mime = ''text/plain''\<rparr>],
                  Inr ())))
      else ([ErrorMsg column_not_found_msg], Inr ()))"

text \<open>
  \<open>main\<close>, one pass of the script, with the two library calls that can fail as
  parameters: the parser and the serialisation inside \<open>st.dataframe\<close>. The trace records, in order, each function \<open>main\<close>
  calls and each element put on the page; the outcome tells how the pass ended:
  at the end of \<open>main\<close>, at an \<open>st.stop()\<close>, or with an exception.
\<close>

datatype fn = Configure_page | Load_data | Validate_columns | Display_data | Export_usernames

datatype event = Invoke fn | Emit element

datatype outcome = Finished | Stopped | Raised error

definition configure_page :: "element list" where
  "configure_page =
     [PageConfig ''Instagram Data Viewer'' [CHR 0xE2, CHR 0x9C, CHR 0xA8] ''wide'']"

definition main ::
  "('f \<Rightarrow> string + dataframe) \<Rightarrow> (dataframe_args \<Rightarrow> error option) \<Rightarrow> 'f option
     \<Rightarrow> event list \<times> outcome" where
  "main read_excel serialize uploaded_file =
     (let t0 = Invoke Configure_page # map Emit configure_page
                 @ [Emit (FileUploader ''Escolha um arquivo XLSX'' ''xlsx'')]
      in case uploaded_file of
           None \<Rightarrow> (t0, Stopped)
         | Some f \<Rightarrow>
             (let (e1, loaded) = load_data read_excel f;
                  t1 = t0 @ Invoke Load_data # map Emit e1
              in case loaded of
                   None \<Rightarrow> (t1, Stopped)
                 | Some df \<Rightarrow>
                     (let required_columns = get_required_columns;
                          (e2, valid) = validate_columns df required_columns;
                          t2 = t1 @ Invoke Validate_columns # map Emit e2
                      in if \<not> valid then (t2, Stopped)
                         else
                           (let (e3, r3) = display_data serialize df required_columns;
                                t3 = t2 @ Invoke Display_data # map Emit e3
                            in case r3 of
                                 Inl err \<Rightarrow> (t3, Raised err)
                               | Inr _ \<Rightarrow>
                                   (let (e4, r4) = export_usernames df;
                                        t4 = t3 @ Invoke Export_usernames # map Emit e4
                                    in case r4 of
                                         Inl err \<Rightarrow> (t4, Raised err)
                                       | Inr _ \<Rightarrow> (t4, Finished))))))"

section \<open>Example tables\<close>

text \<open>
  A table with the six required columns in an order of its own and one more column, and
  a parser that fails on file \<open>0\<close>, reads a table with a single column from file \<open>1\<close>
  and the table above from any other file.
\<close>

definition example_table :: dataframe where
  "example_table =
     [(''created_at'', [OtherV ''2024-05-01 10:00:00'', OtherV ''2024-05-02 11:30:00'']),
      (''id'', [IntV 1, IntV 2]),
      (''text'', [StrV ''nice'', StrV ''wow'']),
      (''user/username'', [StrV ''alice'', StrV ''bob'']),
      (''user_profile_url'',
         [StrV ''https://www.instagram.com/alice'', StrV ''https://www.instagram.com/bob'']),
      (''comment_like_count'', [IntV 3, IntV 0]),
      (''user/is_verified'', [BoolV False, BoolV True])]"

definition example_read_excel :: "nat \<Rightarrow> string + dataframe" where
  "example_read_excel f =
     (if f = 0 then Inl ''File is not a zip file''
      else if f = 1 then Inr [(''text'', [StrV ''nice''])]
      else Inr example_table)"


definition no_refusal :: "dataframe_args \<Rightarrow> error option" where
  "no_refusal a = None"

section \<open>Auxiliary facts\<close>

subsection \<open>Columns of a table with distinct labels\<close>

lemma filter_label_unique:
  "distinct (map fst df) \<Longrightarrow> (n, vs) \<in> set df \<Longrightarrow> filter (\<lambda>c. fst c = n) df = [(n, vs)]"
proof (induction df)
  case Nil
  then show ?case by simp
next
  case (Cons c df)
  show ?case
  proof (cases "fst c = n")
    case True
    with Cons.prems have no: "n \<notin> fst ` set df"
      by simp
    then have "\<forall>d \<in> set df. fst d \<noteq> n"
      by force
    then have "filter (\<lambda>c. fst c = n) df = []"
      by (simp add: filter_empty_conv)
    moreover from no Cons.prems(2) have "c = (n, vs)"
      by force
    ultimately show ?thesis by simp
  next
    case False
    with Cons show ?thesis by auto
  qed
qed




subsection \<open>The functions of the application on well-formed input\<close>

lemma validate_columns_ok_iff:
  "snd (validate_columns df req) \<longleftrightarrow> set req \<subseteq> set (columns df)"
  by (auto simp: validate_columns_def Let_def filter_empty_conv)

lemma py_repr_required:
  "n \<in> set get_required_columns \<Longrightarrow> py_repr n = [CHR 0x27] @ n @ [CHR 0x27]"
  by (auto simp: get_required_columns_def py_repr_def repr_quote_def repr_char_def)








lemma export_usernames_present:
  assumes "distinct (columns df)" and "(''user/username'', vals) \<in> set df"
  shows "export_usernames df =
    ([DownloadButton \<lparr>label = ''Exportar user/username como texto'',
        payload = join [CHR 0x0A]
          (map (\<lambda>username. base_url @ py_format username) (filter (\<lambda>v. \<not> isna v) vals)),
        file_name = ''usernames.txt'', mime = ''text/plain''\<rparr>],
     Inr ())"
proof -
  from assms(2) have "''user/username'' \<in> set (columns df)"
    unfolding columns_def by force
  moreover from assms have "filter (\<lambda>c. fst c = ''user/username'') df = [(''user/username'', vals)]"
    unfolding columns_def by (rule filter_label_unique)
  ultimately show ?thesis
    by (simp add: export_usernames_def getitem_dropna_tolist_def)
qed

subsection \<open>What each function puts on the page\<close>

lemma load_data_emits:
  "e \<in> set (fst (load_data read_excel f)) \<Longrightarrow>
   \<exists>m. e = ErrorMsg (''Erro ao carregar arquivo: '' @ m)"
  by (auto simp: load_data_def split: sum.splits)

lemma validate_columns_emits:
  "e \<in> set (fst (validate_columns df req)) \<Longrightarrow> \<exists>m. e = ErrorMsg (missing_columns_msg @ m)"
  by (auto simp: validate_columns_def Let_def split: if_splits)

lemma display_data_emits:
  "e \<in> set (fst (display_data serialize df req)) \<Longrightarrow>
   (\<exists>h d. e = Header h d) \<or> (\<exists>a. e = Dataframe a)"
  by (auto simp: display_data_def st_dataframe_def Let_def split: sum.splits option.splits if_splits)

lemma export_usernames_emits:
  "''user/username'' \<in> set (columns df) \<Longrightarrow> e \<in> set (fst (export_usernames df)) \<Longrightarrow>
   \<exists>a. e = DownloadButton a"
  by (auto simp: export_usernames_def Let_def split: sum.splits)

lemma load_data_not_export_error:
  "ErrorMsg column_not_found_msg \<notin> set (fst (load_data read_excel f))"
  by (auto simp: load_data_def column_not_found_msg_def split: sum.splits)

lemma validate_columns_not_export_error:
  "ErrorMsg column_not_found_msg \<notin> set (fst (validate_columns df req))"
  by (auto simp: validate_columns_def Let_def column_not_found_msg_def missing_columns_msg_def)

subsection \<open>The trace of a pass\<close>

lemma main_trace:
  fixes read_excel :: "'f \<Rightarrow> string + dataframe"
    and serialize :: "dataframe_args \<Rightarrow> error option"
  defines "t0 \<equiv> [Invoke Configure_page,
      Emit (PageConfig ''Instagram Data Viewer'' [CHR 0xE2, CHR 0x9C, CHR 0xA8] ''wide''),
      Emit (FileUploader ''Escolha um arquivo XLSX'' ''xlsx'')]"
  shows "main read_excel serialize None = (t0, Stopped)"
    and "snd (load_data read_excel f) = None \<Longrightarrow>
         main read_excel serialize (Some f)
           = (t0 @ Invoke Load_data # map Emit (fst (load_data read_excel f)), Stopped)"
    and "snd (load_data read_excel f) = Some df \<Longrightarrow>
         \<not> snd (validate_columns df get_required_columns) \<Longrightarrow>
         main read_excel serialize (Some f)
           = (t0 @ Invoke Load_data # map Emit (fst (load_data read_excel f))
                @ Invoke Validate_columns
                  # map Emit (fst (validate_columns df get_required_columns)), Stopped)"
    and "snd (load_data read_excel f) = Some df \<Longrightarrow>
         snd (validate_columns df get_required_columns) \<Longrightarrow>
         \<exists>out. main read_excel serialize (Some f)
           = (t0 @ Invoke Load_data # map Emit (fst (load_data read_excel f))
                @ Invoke Validate_columns
                  # map Emit (fst (validate_columns df get_required_columns))
                @ Invoke Display_data
                  # map Emit (fst (display_data serialize df get_required_columns))
                @ (case snd (display_data serialize df get_required_columns) of
                     Inl err \<Rightarrow> []
                   | Inr u \<Rightarrow> Invoke Export_usernames # map Emit (fst (export_usernames df))),
              out)
           \<and> out \<noteq> Stopped"
  unfolding t0_def
  by (auto simp: main_def configure_page_def Let_def split: prod.splits sum.splits option.splits)

section \<open>Schema validation\<close>

text \<open>
  C2. A table that lacks a non-empty subset \<open>M\<close> of the six required names fails
  validation, and the error shown lists exactly the names of \<open>M\<close>, each in single quotes,
  in the order of the required list.
\<close>

theorem validate_columns_reports_missing:
  assumes "M \<subseteq> set get_required_columns" and "M \<noteq> {}"
    and "set (columns df) \<inter> set get_required_columns = set get_required_columns - M"
  shows "validate_columns df get_required_columns =
           ([ErrorMsg (missing_columns_msg
               @ py_repr_list (filter (\<lambda>col. col \<in> M) get_required_columns))], False)
         \<and> py_repr_list (filter (\<lambda>col. col \<in> M) get_required_columns) =
             ''['' @ join '', '' (map (\<lambda>col. [CHR 0x27] @ col @ [CHR 0x27])
                                    (filter (\<lambda>col. col \<in> M) get_required_columns)) @ '']''"
proof -
  have "(col \<notin> set (columns df)) = (col \<in> M)" if "col \<in> set get_required_columns" for col
    using that assms(1,3) by blast
  then have eq: "filter (\<lambda>col. col \<notin> set (columns df)) get_required_columns
      = filter (\<lambda>col. col \<in> M) get_required_columns"
    by (simp cong: filter_cong)
  from assms(1,2) obtain m where "m \<in> M" "m \<in> set get_required_columns"
    by blast
  then have ne: "filter (\<lambda>col. col \<in> M) get_required_columns \<noteq> []"
    by (auto simp: filter_empty_conv)
  have "map py_repr (filter (\<lambda>col. col \<in> M) get_required_columns)
      = map (\<lambda>col. [CHR 0x27] @ col @ [CHR 0x27]) (filter (\<lambda>col. col \<in> M) get_required_columns)"
    by (rule map_cong) (simp_all add: py_repr_required)
  then have quoted: "py_repr_list (filter (\<lambda>col. col \<in> M) get_required_columns) =
      ''['' @ join '', '' (map (\<lambda>col. [CHR 0x27] @ col @ [CHR 0x27])
                             (filter (\<lambda>col. col \<in> M) get_required_columns)) @ '']''"
    by (simp only: py_repr_list_def)
  from eq ne have "validate_columns df get_required_columns =
      ([ErrorMsg (missing_columns_msg
          @ py_repr_list (filter (\<lambda>col. col \<in> M) get_required_columns))], False)"
    by (simp add: validate_columns_def)
  with quoted show ?thesis
    by (rule conjI [rotated])
qed

theorem validate_columns_reports_missing_witness:
  "{''text'', ''created_at''} \<subseteq> set get_required_columns
   \<and> {''text'', ''created_at''} \<noteq> ({} :: string set)
   \<and> validate_columns [(''user_profile_url'', []), (''user/is_verified'', []), (''id'', []),
         (''user/username'', []), (''comment_like_count'', [])] get_required_columns
       = ([ErrorMsg (missing_columns_msg @ ''['' @ [CHR 0x27] @ ''text'' @ [CHR 0x27] @ '', ''
             @ [CHR 0x27] @ ''created_at'' @ [CHR 0x27] @ '']'')], False)"
proof -
  let ?df = "[(''user_profile_url'', []), (''user/is_verified'', []), (''id'', []),
         (''user/username'', []), (''comment_like_count'', [])] :: dataframe"
  have 1: "{''text'', ''created_at''} \<subseteq> set get_required_columns"
    by (simp add: get_required_columns_def)
  have 2: "{''text'', ''created_at''} \<noteq> ({} :: string set)"
    by simp
  have 3: "set (columns ?df) \<inter> set get_required_columns
      = set get_required_columns - {''text'', ''created_at''}"
    by (auto simp: get_required_columns_def columns_def)
  from validate_columns_reports_missing [OF 1 2 3] 1 2 show ?thesis
    by (simp add: get_required_columns_def)
qed

text \<open>
  C3. A table whose labels include all six required names passes validation and nothing
  is shown, whatever other columns it has and in whatever order its columns come.
\<close>

theorem validate_columns_accepts:
  assumes "set get_required_columns \<subseteq> set (columns df)"
  shows "validate_columns df get_required_columns = ([], True)"
proof -
  from assms have "filter (\<lambda>col. col \<notin> set (columns df)) get_required_columns = []"
    by (auto simp: filter_empty_conv)
  then show ?thesis
    by (simp add: validate_columns_def)
qed

theorem validate_columns_accepts_witness:
  "set get_required_columns \<subseteq> set (columns example_table)
   \<and> columns example_table = [''created_at'', ''id'', ''text'', ''user/username'',
        ''user_profile_url'', ''comment_like_count'', ''user/is_verified'']
   \<and> validate_columns example_table get_required_columns = ([], True)"
proof -
  have h: "set get_required_columns \<subseteq> set (columns example_table)"
    by (simp add: example_table_def get_required_columns_def columns_def)
  from validate_columns_accepts [OF h] h show ?thesis
    by (simp add: example_table_def columns_def)
qed

section \<open>Rendering\<close>




section \<open>Export\<close>

text \<open>
  C4. For a table with the column \<open>user/username\<close>, the text offered for download is the
  newline-join, in row order, of one URL per cell that is not missing, each URL being
  \<open>https://www.instagram.com/\<close> followed by the value as it is (a string value is
  appended unchanged); for the values \<open>"alice", None, "bob"\<close> the text is the two URLs of
  alice and bob on two lines.
\<close>

theorem export_usernames_payload:
  assumes "distinct (columns df)" and "(''user/username'', vals) \<in> set df"
  shows "export_usernames df =
           ([DownloadButton \<lparr>label = ''Exportar user/username como texto'',
               payload = join ''\<newline>''
                 (map (\<lambda>v. ''https://www.instagram.com/'' @ py_format v)
                    (filter (\<lambda>v. \<not> isna v) vals)),
               file_name = ''usernames.txt'', mime = ''text/plain''\<rparr>],
            Inr ())
         \<and> (\<forall>s. py_format (StrV s) = s)
         \<and> (vals = [StrV ''alice'', PyNone, StrV ''bob''] \<longrightarrow>
              export_usernames df =
                ([DownloadButton \<lparr>label = ''Exportar user/username como texto'',
                    payload = ''https://www.instagram.com/alice\<newline>https://www.instagram.com/bob'',
                    file_name = ''usernames.txt'', mime = ''text/plain''\<rparr>],
                 Inr ()))"
proof -
  have "export_usernames df =
           ([DownloadButton \<lparr>label = ''Exportar user/username como texto'',
               payload = join ''\<newline>''
                 (map (\<lambda>v. ''https://www.instagram.com/'' @ py_format v)
                    (filter (\<lambda>v. \<not> isna v) vals)),
               file_name = ''usernames.txt'', mime = ''text/plain''\<rparr>],
            Inr ())"
    using export_usernames_present [OF assms] by (simp add: base_url_def)
  then show ?thesis by simp
qed

theorem export_usernames_payload_witness:
  "distinct (columns [(''text'', [StrV ''hi'', StrV ''hello'', StrV ''bye'']),
                      (''user/username'', [StrV ''alice'', PyNone, StrV ''bob''])])
   \<and> export_usernames [(''text'', [StrV ''hi'', StrV ''hello'', StrV ''bye'']),
                        (''user/username'', [StrV ''alice'', PyNone, StrV ''bob''])] =
        ([DownloadButton \<lparr>label = ''Exportar user/username como texto'',
            payload = ''https://www.instagram.com/alice\<newline>https://www.instagram.com/bob'',
            file_name = ''usernames.txt'', mime = ''text/plain''\<rparr>],
         Inr ())"
  using export_usernames_payload
    [of "[(''text'', [StrV ''hi'', StrV ''hello'', StrV ''bye'']),
          (''user/username'', [StrV ''alice'', PyNone, StrV ''bob''])]"
        "[StrV ''alice'', PyNone, StrV ''bob'']"]
  by (simp add: columns_def)



text \<open>
  C6. For a table without the column \<open>user/username\<close>, the exporter shows the
  column-not-found message and no download button, whether or not the table passed a
  validation.
\<close>

theorem export_usernames_column_absent:
  assumes "''user/username'' \<notin> set (columns df)"
    and "snd (validate_columns df required_columns) = valid"
  shows "export_usernames df = ([ErrorMsg column_not_found_msg], Inr ())
         \<and> (\<forall>a. DownloadButton a \<notin> set (fst (export_usernames df)))"
  using assms(1) by (simp add: export_usernames_def)

theorem export_usernames_column_absent_witness:
  "''user/username'' \<notin> set (columns [(''text'', [StrV ''hi''])])
   \<and> snd (validate_columns [(''text'', [StrV ''hi''])] [''text'']) = True
   \<and> snd (validate_columns [(''text'', [StrV ''hi''])] get_required_columns) = False
   \<and> export_usernames [(''text'', [StrV ''hi''])] = ([ErrorMsg column_not_found_msg], Inr ())"
  using export_usernames_column_absent [of "[(''text'', [StrV ''hi''])]" "[''text'']" True]
    export_usernames_column_absent [of "[(''text'', [StrV ''hi''])]" get_required_columns False]
  by (simp add: columns_def validate_columns_def get_required_columns_def)

text \<open>
  C9. For a table whose column \<open>user/username\<close> has no cell that is not missing, the
  exporter offers the empty text for download as \<open>usernames.txt\<close> and shows no error.
\<close>

theorem export_usernames_all_missing:
  assumes "distinct (columns df)" and "(''user/username'', vals) \<in> set df"
    and "\<forall>v \<in> set vals. isna v"
  shows "export_usernames df =
           ([DownloadButton \<lparr>label = ''Exportar user/username como texto'',
               payload = '''', file_name = ''usernames.txt'', mime = ''text/plain''\<rparr>],
            Inr ())"
proof -
  from assms(3) have "filter (\<lambda>v. \<not> isna v) vals = []"
    by (simp add: filter_empty_conv)
  with export_usernames_present [OF assms(1,2)] show ?thesis
    by simp
qed

theorem export_usernames_all_missing_witness:
  "distinct (columns [(''user/username'', [PyNone, NaN]), (''text'', [StrV ''a'', StrV ''b''])])
   \<and> isna PyNone \<and> isna NaN
   \<and> export_usernames [(''user/username'', [PyNone, NaN]), (''text'', [StrV ''a'', StrV ''b''])] =
        ([DownloadButton \<lparr>label = ''Exportar user/username como texto'',
            payload = '''', file_name = ''usernames.txt'', mime = ''text/plain''\<rparr>],
         Inr ())
   \<and> export_usernames [(''user/username'', [])] =
        ([DownloadButton \<lparr>label = ''Exportar user/username como texto'',
            payload = '''', file_name = ''usernames.txt'', mime = ''text/plain''\<rparr>],
         Inr ())"
  using export_usernames_all_missing
    [of "[(''user/username'', [PyNone, NaN]), (''text'', [StrV ''a'', StrV ''b''])]" "[PyNone, NaN]"]
    export_usernames_all_missing [of "[(''user/username'', [])]" "[]"]
  by (simp add: columns_def)

text \<open>
  C7. A table that passes validation against the six required names has the column
  \<open>user/username\<close>, so the exporter does not show the column-not-found message for it,
  and no pass of \<open>main\<close> shows that message.
\<close>

theorem export_error_unreachable:
  fixes read_excel :: "'f \<Rightarrow> string + dataframe"
  assumes "snd (validate_columns df get_required_columns)"
  shows "''user/username'' \<in> set (columns df)
       \<and> ErrorMsg column_not_found_msg \<notin> set (fst (export_usernames df))
       \<and> (\<forall>uploaded_file.
            Emit (ErrorMsg column_not_found_msg) \<notin> set (fst (main read_excel serialize uploaded_file)))"
proof (intro conjI allI)
  have present: "''user/username'' \<in> set (columns d)"
    if "snd (validate_columns d get_required_columns)" for d
  proof -
    from that have "set get_required_columns \<subseteq> set (columns d)"
      by (simp add: validate_columns_ok_iff)
    then show ?thesis
      by (simp add: get_required_columns_def)
  qed
  from assms show "''user/username'' \<in> set (columns df)"
    by (rule present)
  then show "ErrorMsg column_not_found_msg \<notin> set (fst (export_usernames df))"
    using export_usernames_emits [of df "ErrorMsg column_not_found_msg"] by auto
  fix uploaded_file
  let ?e = "ErrorMsg column_not_found_msg"
  show "Emit ?e \<notin> set (fst (main read_excel serialize uploaded_file))"
  proof (cases uploaded_file)
    case None
    then show ?thesis
      by (simp add: main_trace(1))
  next
    case (Some f)
    have l: "?e \<notin> set (fst (load_data read_excel f))"
      by (rule load_data_not_export_error)
    show ?thesis
    proof (cases "snd (load_data read_excel f)")
      case None
      with Some l show ?thesis
        by (auto simp: main_trace(2))
    next
      case loaded: (Some d)
      have v: "?e \<notin> set (fst (validate_columns d get_required_columns))"
        by (rule validate_columns_not_export_error)
      show ?thesis
      proof (cases "snd (validate_columns d get_required_columns)")
        case False
        with Some loaded l v show ?thesis
          by (auto simp: main_trace(3))
      next
        case True
        have r: "?e \<notin> set (fst (display_data serialize d get_required_columns))"
          using display_data_emits [of ?e serialize d get_required_columns] by auto
        have x: "?e \<notin> set (fst (export_usernames d))"
          using export_usernames_emits [of d ?e] present [OF True] by auto
        from main_trace(4) [OF loaded True, of serialize] Some l v r x show ?thesis
          by (auto split: sum.splits)
      qed
    qed
  qed
qed

theorem export_error_unreachable_witness:
  "snd (validate_columns example_table get_required_columns)
   \<and> ''user/username'' \<in> set (columns example_table)
   \<and> ErrorMsg column_not_found_msg \<notin> set (fst (export_usernames example_table))
   \<and> Emit (ErrorMsg column_not_found_msg) \<notin> set (fst (main example_read_excel no_refusal (Some 2)))"
proof -
  have h: "snd (validate_columns example_table get_required_columns)"
    by (simp add: validate_columns_def example_table_def get_required_columns_def columns_def)
  from export_error_unreachable [OF h, of example_read_excel] h show ?thesis
    by blast
qed

section \<open>Orchestration\<close>

text \<open>
  C8. A pass of \<open>main\<close> stops at the first failure: with no file only
  \<open>configure_page\<close> is called; when the loader gives no table, the validator, the
  renderer and the exporter are not called; when validation fails, the renderer and the
  exporter are not called; and in any pass the exporter is called only after the loader,
  the validator and the renderer.
\<close>

theorem main_short_circuits:
  fixes read_excel :: "'f \<Rightarrow> string + dataframe"
  assumes "main read_excel serialize uploaded_file = (t, out)"
  shows "(uploaded_file = None \<longrightarrow>
            out = Stopped \<and> (\<forall>g. Invoke g \<in> set t \<longrightarrow> g = Configure_page))
       \<and> (\<forall>f. uploaded_file = Some f \<and> snd (load_data read_excel f) = None \<longrightarrow>
            out = Stopped \<and> Invoke Validate_columns \<notin> set t
            \<and> Invoke Display_data \<notin> set t \<and> Invoke Export_usernames \<notin> set t
            \<and> (\<forall>a. Emit (Dataframe a) \<notin> set t) \<and> (\<forall>b. Emit (DownloadButton b) \<notin> set t))
       \<and> (\<forall>f df. uploaded_file = Some f \<and> snd (load_data read_excel f) = Some df
              \<and> \<not> snd (validate_columns df get_required_columns) \<longrightarrow>
            out = Stopped
            \<and> Invoke Display_data \<notin> set t \<and> Invoke Export_usernames \<notin> set t
            \<and> (\<forall>a. Emit (Dataframe a) \<notin> set t) \<and> (\<forall>b. Emit (DownloadButton b) \<notin> set t))
       \<and> (Invoke Export_usernames \<in> set t \<longrightarrow>
            (\<exists>pre post. t = pre @ Invoke Export_usernames # post
               \<and> Invoke Display_data \<in> set pre \<and> Invoke Validate_columns \<in> set pre
               \<and> Invoke Load_data \<in> set pre))"
proof (intro conjI allI impI)
  assume "uploaded_file = None"
  with assms main_trace(1) [of read_excel serialize] show "out = Stopped"
    by simp
next
  fix g
  assume "uploaded_file = None" and "Invoke g \<in> set t"
  with assms main_trace(1) [of read_excel serialize] show "g = Configure_page"
    by auto
next
  fix f
  assume a: "uploaded_file = Some f \<and> snd (load_data read_excel f) = None"
  with assms main_trace(2) [of read_excel f serialize]
  have t: "t = [Invoke Configure_page,
      Emit (PageConfig ''Instagram Data Viewer'' [CHR 0xE2, CHR 0x9C, CHR 0xA8] ''wide''),
      Emit (FileUploader ''Escolha um arquivo XLSX'' ''xlsx'')]
      @ Invoke Load_data # map Emit (fst (load_data read_excel f))" and o: "out = Stopped"
    by simp_all
  show "out = Stopped" by (rule o)
  show "Invoke Validate_columns \<notin> set t" "Invoke Display_data \<notin> set t"
    "Invoke Export_usernames \<notin> set t"
    unfolding t by auto
  show "Emit (Dataframe a) \<notin> set t" for a
    unfolding t using load_data_emits [of "Dataframe a" read_excel f] by auto
  show "Emit (DownloadButton b) \<notin> set t" for b
    unfolding t using load_data_emits [of "DownloadButton b" read_excel f] by auto
next
  fix f df
  assume a: "uploaded_file = Some f \<and> snd (load_data read_excel f) = Some df
              \<and> \<not> snd (validate_columns df get_required_columns)"
  with assms main_trace(3) [of read_excel f df serialize]
  have t: "t = [Invoke Configure_page,
      Emit (PageConfig ''Instagram Data Viewer'' [CHR 0xE2, CHR 0x9C, CHR 0xA8] ''wide''),
      Emit (FileUploader ''Escolha um arquivo XLSX'' ''xlsx'')]
      @ Invoke Load_data # map Emit (fst (load_data read_excel f))
      @ Invoke Validate_columns # map Emit (fst (validate_columns df get_required_columns))"
    and o: "out = Stopped"
    by simp_all
  show "out = Stopped" by (rule o)
  show "Invoke Display_data \<notin> set t" "Invoke Export_usernames \<notin> set t"
    unfolding t by auto
  show "Emit (Dataframe a) \<notin> set t" for a
    unfolding t using load_data_emits [of "Dataframe a" read_excel f]
      validate_columns_emits [of "Dataframe a" df get_required_columns] by auto
  show "Emit (DownloadButton b) \<notin> set t" for b
    unfolding t using load_data_emits [of "DownloadButton b" read_excel f]
      validate_columns_emits [of "DownloadButton b" df get_required_columns] by auto
next
  assume e: "Invoke Export_usernames \<in> set t"
  show "\<exists>pre post. t = pre @ Invoke Export_usernames # post
               \<and> Invoke Display_data \<in> set pre \<and> Invoke Validate_columns \<in> set pre
               \<and> Invoke Load_data \<in> set pre"
  proof (cases uploaded_file)
    case None
    with assms main_trace(1) [of read_excel serialize] e show ?thesis
      by auto
  next
    case (Some f)
    show ?thesis
    proof (cases "snd (load_data read_excel f)")
      case None
      with Some assms main_trace(2) [of read_excel f serialize] e show ?thesis
        by auto
    next
      case loaded: (Some df)
      show ?thesis
      proof (cases "snd (validate_columns df get_required_columns)")
        case False
        with Some loaded assms main_trace(3) [of read_excel f df serialize] e show ?thesis
          by auto
      next
        case True
        define pre where "pre = [Invoke Configure_page,
            Emit (PageConfig ''Instagram Data Viewer'' [CHR 0xE2, CHR 0x9C, CHR 0xA8] ''wide''),
            Emit (FileUploader ''Escolha um arquivo XLSX'' ''xlsx'')]
          @ Invoke Load_data # map Emit (fst (load_data read_excel f))
          @ Invoke Validate_columns # map Emit (fst (validate_columns df get_required_columns))
          @ Invoke Display_data # map Emit (fst (display_data serialize df get_required_columns))"
        from main_trace(4) [OF loaded True, of serialize] Some assms
        have t: "t = pre @ (case snd (display_data serialize df get_required_columns) of
                     Inl err \<Rightarrow> []
                   | Inr u \<Rightarrow> Invoke Export_usernames # map Emit (fst (export_usernames df)))"
          unfolding pre_def by auto
        have pre: "Invoke Export_usernames \<notin> set pre" "Invoke Display_data \<in> set pre"
          "Invoke Validate_columns \<in> set pre" "Invoke Load_data \<in> set pre"
          unfolding pre_def by auto
        show ?thesis
        proof (cases "snd (display_data serialize df get_required_columns)")
          case (Inl err)
          with t e pre(1) show ?thesis by simp
        next
          case (Inr u)
          with t have "t = pre @ Invoke Export_usernames # map Emit (fst (export_usernames df))"
            by simp
          with pre show ?thesis by blast
        qed
      qed
    qed
  qed
qed

theorem main_short_circuits_witness:
  "main example_read_excel no_refusal None
     = ([Invoke Configure_page,
         Emit (PageConfig ''Instagram Data Viewer'' [CHR 0xE2, CHR 0x9C, CHR 0xA8] ''wide''),
         Emit (FileUploader ''Escolha um arquivo XLSX'' ''xlsx'')], Stopped)
   \<and> snd (main example_read_excel no_refusal (Some 0)) = Stopped
   \<and> Invoke Validate_columns \<notin> set (fst (main example_read_excel no_refusal (Some 0)))
   \<and> snd (main example_read_excel no_refusal (Some 1)) = Stopped
   \<and> Invoke Display_data \<notin> set (fst (main example_read_excel no_refusal (Some 1)))
   \<and> Invoke Export_usernames \<notin> set (fst (main example_read_excel no_refusal (Some 1)))
   \<and> snd (main example_read_excel no_refusal (Some 2)) = Finished
   \<and> (\<exists>pre post. fst (main example_read_excel no_refusal (Some 2)) = pre @ Invoke Export_usernames # post
         \<and> Invoke Display_data \<in> set pre)"
proof -
  have m: "main example_read_excel no_refusal u = (fst (main example_read_excel no_refusal u), snd (main example_read_excel no_refusal u))"
    for u by simp
  have l0: "snd (load_data example_read_excel 0) = None"
    by (simp add: load_data_def example_read_excel_def)
  have l1: "snd (load_data example_read_excel 1) = Some [(''text'', [StrV ''nice''])]"
    by (simp add: load_data_def example_read_excel_def)
  have v1: "\<not> snd (validate_columns [(''text'', [StrV ''nice''])] get_required_columns)"
    by (simp add: validate_columns_def get_required_columns_def columns_def)
  have 0: "main example_read_excel no_refusal None
     = ([Invoke Configure_page,
         Emit (PageConfig ''Instagram Data Viewer'' [CHR 0xE2, CHR 0x9C, CHR 0xA8] ''wide''),
         Emit (FileUploader ''Escolha um arquivo XLSX'' ''xlsx'')], Stopped)"
    by (simp add: main_def configure_page_def)
  have 2: "snd (main example_read_excel no_refusal (Some 2)) = Finished"
    "Invoke Export_usernames \<in> set (fst (main example_read_excel no_refusal (Some 2)))"
    by (simp_all add: main_def configure_page_def load_data_def example_read_excel_def
        validate_columns_def get_required_columns_def columns_def example_table_def
        display_data_def getitem_list_def export_usernames_def getitem_dropna_tolist_def
        st_dataframe_def fits_64_bits_def no_refusal_def)
  from main_short_circuits [OF m [of "Some 0"]] l0
  have a0: "snd (main example_read_excel no_refusal (Some 0)) = Stopped
      \<and> Invoke Validate_columns \<notin> set (fst (main example_read_excel no_refusal (Some 0)))"
    by blast
  from main_short_circuits [OF m [of "Some 1"]] l1 v1
  have a1: "snd (main example_read_excel no_refusal (Some 1)) = Stopped
      \<and> Invoke Display_data \<notin> set (fst (main example_read_excel no_refusal (Some 1)))
      \<and> Invoke Export_usernames \<notin> set (fst (main example_read_excel no_refusal (Some 1)))"
    by blast
  from main_short_circuits [OF m [of "Some 2"]] 2(2)
  have a2: "\<exists>pre post. fst (main example_read_excel no_refusal (Some 2)) = pre @ Invoke Export_usernames # post
         \<and> Invoke Display_data \<in> set pre"
    by blast
  from 0 a0 a1 2(1) a2 show ?thesis
    by blast
qed

section \<open>The constant tables\<close>

text \<open>
  C10. The display order is a permutation of the required list, which has six distinct
  names, and every required name has an entry in the column configuration.
\<close>

theorem constant_tables_consistent:
  "mset get_column_order = mset get_required_columns
   \<and> distinct get_required_columns \<and> length get_required_columns = 6
   \<and> distinct get_column_order
   \<and> set get_required_columns \<subseteq> dom (map_of get_column_config)
   \<and> set get_column_order \<subseteq> dom (map_of get_column_config)"
  by (simp add: get_column_order_def get_required_columns_def get_column_config_def)

end
